theory Spec2Isabelle
  imports Main "HOL-Library.AList"
begin

section \<open>Python values, dictionaries and messages\<close>

text \<open>
  The profile dictionaries of \<^verbatim>\<open>agentic_fastapi_app.py\<close> map field names to strings
  (\<^verbatim>\<open>user_profile_data: Dict[str, str]\<close>) and the columns of the table
  \<^verbatim>\<open>user_profiles\<close> are \<^verbatim>\<open>TEXT\<close>, read back as \<^verbatim>\<open>str\<close> or \<^verbatim>\<open>None\<close>.  A value is
  therefore a \<open>string option\<close>, \<open>None\<close> being Python's \<^verbatim>\<open>None\<close> (SQL \<^verbatim>\<open>NULL\<close>).  A
  dictionary is an association list in insertion order; a Python \<^verbatim>\<open>str\<close> is the list
  of its UTF-8 bytes.
\<close>

type_synonym pyval = "string option"

type_synonym pydict = "(string \<times> pyval) list"

text \<open>\<^verbatim>\<open>k in d\<close>\<close>

definition dict_contains :: "pydict \<Rightarrow> string \<Rightarrow> bool" where
  "dict_contains d k = (map_of d k \<noteq> None)"

text \<open>\<^verbatim>\<open>d[k]\<close>, read only where \<^verbatim>\<open>k in d\<close> has been tested, and \<^verbatim>\<open>d.get(k)\<close>\<close>

definition dict_get :: "pydict \<Rightarrow> string \<Rightarrow> pyval" where
  "dict_get d k = (case map_of d k of None \<Rightarrow> None | Some v \<Rightarrow> v)"

text \<open>\<^verbatim>\<open>d.get(k, default)\<close>\<close>

definition dict_get_default :: "pydict \<Rightarrow> string \<Rightarrow> pyval \<Rightarrow> pyval" where
  "dict_get_default d k dflt = (case map_of d k of None \<Rightarrow> dflt | Some v \<Rightarrow> v)"

text \<open>\<^verbatim>\<open>d[k] = v\<close>\<close>

definition dict_set :: "pydict \<Rightarrow> string \<Rightarrow> pyval \<Rightarrow> pydict" where
  "dict_set d k v = AList.update k v d"

text \<open>\<^verbatim>\<open>d.update(e)\<close>: the items of \<open>e\<close> are written in their order.\<close>

definition dict_update :: "pydict \<Rightarrow> pydict \<Rightarrow> pydict" where
  "dict_update d e = fold (\<lambda>(k, v). AList.update k v) e d"

text \<open>Truth value of a \<^verbatim>\<open>str\<close> or \<^verbatim>\<open>None\<close>: false for \<^verbatim>\<open>None\<close> and for the empty string.\<close>

definition truthy :: "pyval \<Rightarrow> bool" where
  "truthy v = (case v of None \<Rightarrow> False | Some s \<Rightarrow> s \<noteq> [])"

text \<open>\<^verbatim>\<open>str(v)\<close>, as an f-string formats a value.\<close>

definition py_str :: "pyval \<Rightarrow> string" where
  "py_str v = (case v of None \<Rightarrow> ''None'' | Some s \<Rightarrow> s)"

datatype message = HumanMessage string | AIMessage string

fun content :: "message \<Rightarrow> string" where
  "content (HumanMessage s) = s"
| "content (AIMessage s) = s"

fun is_human :: "message \<Rightarrow> bool" where
  "is_human (HumanMessage s) = True"
| "is_human (AIMessage s) = False"

section \<open>The SQLite store\<close>

text \<open>
  The table \<^verbatim>\<open>user_profiles\<close> has the primary key \<^verbatim>\<open>user_id\<close>, so it holds at most one
  row for a user: a map from the key to the other columns of the row.  The two timestamp
  columns are left out: they hold the wall-clock time and no node reads them.
\<close>

type_synonym store = "string \<rightharpoonup> pydict"

text \<open>
  \<^verbatim>\<open>SELECT * FROM user_profiles WHERE user_id = ?\<close>, then \<^verbatim>\<open>dict(zip(columns, row))\<close>:
  the dictionary of the row, its key column first, or \<^verbatim>\<open>None\<close>.
\<close>

definition get_user_profile :: "store \<Rightarrow> string \<Rightarrow> pydict option" where
  "get_user_profile db uid =
     (case db uid of
        None \<Rightarrow> None
      | Some r \<Rightarrow> Some ((''user_id'', Some uid) # r))"

text \<open>The fifteen columns that both statements of \<^verbatim>\<open>save_user_profile\<close> name, in their order.\<close>

definition profile_columns :: "string list" where
  "profile_columns =
     [''name'', ''state'', ''age'', ''gender'', ''occupation'', ''income_category'',
      ''family_size'', ''has_disability'', ''craft_type'', ''materials'',
      ''years_experience'', ''sales_channels'', ''price_range'', ''languages'',
      ''brand_style'']"

text \<open>\<^verbatim>\<open>UPDATE user_profiles SET c1 = ?, ... WHERE user_id = ?\<close>: no row, no change.\<close>

definition sql_update :: "store \<Rightarrow> string \<Rightarrow> pydict \<Rightarrow> store" where
  "sql_update db uid assignments =
     (case db uid of
        None \<Rightarrow> db
      | Some r \<Rightarrow> db(uid \<mapsto> fold (\<lambda>(c, v). AList.update c v) assignments r))"

text \<open>
  \<^verbatim>\<open>INSERT INTO user_profiles (user_id, c1, ...) VALUES (?, ?, ...)\<close>: the columns the
  statement does not name take their default, \<^verbatim>\<open>NULL\<close> for \<^verbatim>\<open>backstory\<close>.
\<close>

definition sql_insert :: "store \<Rightarrow> string \<Rightarrow> pydict \<Rightarrow> store" where
  "sql_insert db uid named = db(uid \<mapsto> named @ [(''backstory'', None)])"

definition save_user_profile :: "store \<Rightarrow> string \<Rightarrow> pydict \<Rightarrow> store" where
  "save_user_profile db uid profile_data =
     (let existing = get_user_profile db uid;
          params = map (\<lambda>c. (c, dict_get profile_data c)) profile_columns
      in if existing \<noteq> None \<and> existing \<noteq> Some []
         then sql_update db uid params
         else sql_insert db uid params)"

definition save_backstory :: "store \<Rightarrow> string \<Rightarrow> string \<Rightarrow> store" where
  "save_backstory db uid backstory_text =
     sql_update db uid [(''backstory'', Some backstory_text)]"

definition delete_user_profile :: "store \<Rightarrow> string \<Rightarrow> store" where
  "delete_user_profile db uid = db(uid := None)"

text \<open>
  How \<^verbatim>\<open>onboarding_step_node\<close> and \<^verbatim>\<open>get_user_backstory\<close> read the backstory of a user:
  \<^verbatim>\<open>(get_user_profile(user_id) or {}).get('backstory')\<close>.
\<close>

definition stored_backstory :: "store \<Rightarrow> string \<Rightarrow> pyval" where
  "stored_backstory db uid =
     dict_get (case get_user_profile db uid of None \<Rightarrow> [] | Some r \<Rightarrow> r) ''backstory''"

section \<open>Text helpers\<close>

text \<open>
  The regular expressions and string methods the nodes use, on byte strings: the
  character classes are the ASCII ones.
\<close>

definition is_digit :: "char \<Rightarrow> bool" where
  "is_digit c = (c \<in> set ''0123456789'')"

text \<open>\<^verbatim>\<open>re.findall(r'\d+', s)\<close>: the maximal runs of digits, from the left.\<close>

function findall_digits :: "string \<Rightarrow> string list" where
  "findall_digits [] = []"
| "findall_digits (c # cs) =
     (if is_digit c
      then (c # takeWhile is_digit cs) # findall_digits (dropWhile is_digit cs)
      else findall_digits cs)"
  by pat_completeness auto
termination
  by (relation "measure length") (auto simp: length_dropWhile_le less_Suc_eq_le)

text \<open>
  \<^verbatim>\<open>re.search(r'\{.*\}', s, re.DOTALL)\<close> and \<^verbatim>\<open>.group()\<close>: from the first opening brace
  to the last closing brace after it; no match when no closing brace follows.
\<close>

definition json_match :: "string \<Rightarrow> string option" where
  "json_match s =
     (case dropWhile (\<lambda>c. c \<noteq> CHR ''{'') s of
        [] \<Rightarrow> None
      | b # t \<Rightarrow>
          (case rev (dropWhile (\<lambda>c. c \<noteq> CHR ''}'') (rev t)) of
             [] \<Rightarrow> None
           | inner \<Rightarrow> Some (b # inner)))"

definition lower_char :: "char \<Rightarrow> char" where
  "lower_char c =
     (case map_of (zip ''ABCDEFGHIJKLMNOPQRSTUVWXYZ'' ''abcdefghijklmnopqrstuvwxyz'') c of
        None \<Rightarrow> c
      | Some l \<Rightarrow> l)"

text \<open>\<^verbatim>\<open>s.lower()\<close>\<close>

definition py_lower :: "string \<Rightarrow> string" where
  "py_lower s = map lower_char s"

definition is_space :: "char \<Rightarrow> bool" where
  "is_space c = (c \<in> set [CHR '' '', CHR 0x09, CHR 0x0A, CHR 0x0B, CHR 0x0C, CHR 0x0D])"

text \<open>\<^verbatim>\<open>s.strip()\<close>\<close>

definition py_strip :: "string \<Rightarrow> string" where
  "py_strip s = rev (dropWhile is_space (rev (dropWhile is_space s)))"

text \<open>\<^verbatim>\<open>sub in s\<close> for strings\<close>

fun py_in :: "string \<Rightarrow> string \<Rightarrow> bool" where
  "py_in sub [] = (sub = [])"
| "py_in sub (c # cs) = (if take (length sub) (c # cs) = sub then True else py_in sub cs)"

section \<open>The state of the workflow\<close>

text \<open>
  \<^verbatim>\<open>AgentState\<close> is a \<^verbatim>\<open>TypedDict\<close> whose keys may be absent: \<^verbatim>\<open>chat_endpoint\<close> starts a
  conversation with \<^verbatim>\<open>messages\<close> and \<^verbatim>\<open>user_id\<close> only, and the nodes read the rest with
  \<^verbatim>\<open>state.get\<close>.  An absent key is \<open>None\<close>; an absent \<^verbatim>\<open>messages\<close> is the empty list,
  its default.  The keys no node reads (\<^verbatim>\<open>onboarding_step\<close>, \<^verbatim>\<open>timestamp\<close>,
  \<^verbatim>\<open>session_id\<close>) are left out.
\<close>

record agent_state =
  messages :: "message list"
  user_id :: string
  is_onboarding :: "bool option"
  user_profile_data :: "pydict option"
  intent :: "string option"
  tool_output :: "string option"
  final_response_text :: "string option"

text \<open>
  A node returns a dictionary of the keys it sets.  \<^verbatim>\<open>backstory\<close> and \<^verbatim>\<open>error\<close> are
  returned by two nodes and are not keys of \<^verbatim>\<open>AgentState\<close>.
\<close>

record update =
  upd_user_id :: "string option"
  upd_is_onboarding :: "bool option"
  upd_user_profile_data :: "pydict option"
  upd_messages :: "message list option"
  upd_final_response_text :: "string option"
  upd_intent :: "string option"
  upd_tool_output :: "string option"
  upd_backstory :: "pyval option"
  upd_error :: "string option"

definition no_update :: update where
  "no_update =
     \<lparr>upd_user_id = None, upd_is_onboarding = None, upd_user_profile_data = None,
      upd_messages = None, upd_final_response_text = None, upd_intent = None,
      upd_tool_output = None, upd_backstory = None, upd_error = None\<rparr>"

text \<open>
  The graph writes the returned keys into the state: no key of \<^verbatim>\<open>AgentState\<close> declares
  a reducer, so a returned value replaces the old one, and a key outside \<^verbatim>\<open>AgentState\<close>
  has no channel to be written to.
\<close>

definition apply_update :: "agent_state \<Rightarrow> update \<Rightarrow> agent_state" where
  "apply_update st u =
     \<lparr>messages = (case upd_messages u of None \<Rightarrow> messages st | Some m \<Rightarrow> m),
      user_id = (case upd_user_id u of None \<Rightarrow> user_id st | Some i \<Rightarrow> i),
      is_onboarding =
        (case upd_is_onboarding u of None \<Rightarrow> is_onboarding st | Some b \<Rightarrow> Some b),
      user_profile_data =
        (case upd_user_profile_data u of None \<Rightarrow> user_profile_data st | Some p \<Rightarrow> Some p),
      intent = (case upd_intent u of None \<Rightarrow> intent st | Some i \<Rightarrow> Some i),
      tool_output = (case upd_tool_output u of None \<Rightarrow> tool_output st | Some t \<Rightarrow> Some t),
      final_response_text =
        (case upd_final_response_text u of
           None \<Rightarrow> final_response_text st
         | Some t \<Rightarrow> Some t)\<rparr>"

section \<open>The outside world of one turn\<close>

text \<open>
  What the language model, the search tool and a failing store answer during one turn is
  not decided by the program: the outcome of each such call is a field of the
  environment.  \<open>Inl e\<close> is an exception whose \<^verbatim>\<open>str\<close> is \<open>e\<close>, \<open>Inr r\<close> the value
  returned.  A flag says that the store read at that place raises.  \<^verbatim>\<open>json.loads\<close> (on
  the matched text, \<open>None\<close> for \<^verbatim>\<open>JSONDecodeError\<close>) and the formatting of the backstory
  (\<^verbatim>\<open>strip\<close>, the two section patterns and the concatenation) are functions of the
  environment as well: every theorem holds whatever they compute.
\<close>

record env =
  profile_read_raises :: bool
  extraction_reply :: "string + string"
  json_loads :: "string \<Rightarrow> pydict option"
  backstory_read_raises :: bool
  backstory_reply :: "string + string"
  format_backstory :: "string \<Rightarrow> string"
  save_backstory_raises :: bool
  supervisor_reply :: "string + string"
  search_reply :: "string + string list"
  summary_reply :: "string + string"
  general_reply :: "string + string"
  final_reply :: "string + string"
  response_read_raises :: bool

section \<open>The nodes of the workflow\<close>

definition welcome_message :: string where
  "welcome_message =
     ''Welcome! I'm your artisan brand assistant. I'll help you set up your craft profile, craft a compelling backstory, and support your content. Let's start simple ''
     @ [CHR 0xE2, CHR 0x80, CHR 0x94]
     @ '' what should I call you or your brand?''"

text \<open>\<^verbatim>\<open>state.get('user_profile_data', {})\<close>\<close>

definition partial_profile_of :: "agent_state \<Rightarrow> pydict" where
  "partial_profile_of st = (case user_profile_data st of None \<Rightarrow> [] | Some p \<Rightarrow> p)"

text \<open>
  \<^verbatim>\<open>check_user_profile_node\<close>.  When the store read raises, \<^verbatim>\<open>profile_exists\<close> is false
  and \<^verbatim>\<open>stored_profile\<close> is not read.
\<close>

definition check_user_profile_node :: "env \<Rightarrow> store \<Rightarrow> agent_state \<Rightarrow> update" where
  "check_user_profile_node ev db st =
     (if user_id st = [] then no_update\<lparr>upd_error := Some ''User ID not found in state''\<rparr>
      else
        let stored_profile =
              (if profile_read_raises ev then None else get_user_profile db (user_id st));
            profile_exists = (stored_profile \<noteq> None)
        in if profile_exists \<and> stored_profile \<noteq> Some []
           then no_update
                  \<lparr>upd_user_id := Some (user_id st),
                   upd_is_onboarding := Some False,
                   upd_user_profile_data := stored_profile,
                   upd_messages := Some (messages st)\<rparr>
           else
             let partial_profile = partial_profile_of st;
                 msgs = messages st;
                 is_new_user = (length (filter is_human msgs) \<le> 1 \<and> partial_profile = [])
             in if is_new_user
                then no_update
                       \<lparr>upd_user_id := Some (user_id st),
                        upd_is_onboarding := Some True,
                        upd_user_profile_data := Some partial_profile,
                        upd_messages := Some (msgs @ [AIMessage welcome_message]),
                        upd_final_response_text := Some welcome_message\<rparr>
                else no_update
                       \<lparr>upd_user_id := Some (user_id st),
                        upd_is_onboarding := Some True,
                        upd_user_profile_data := Some partial_profile,
                        upd_messages := Some (messages st)\<rparr>)"

definition required_fields :: "string list" where
  "required_fields =
     [''name'', ''state'', ''craft_type'', ''materials'', ''years_experience'',
      ''sales_channels'', ''price_range'', ''languages'', ''brand_style'']"

text \<open>The most recent human message, or the empty string.\<close>

definition last_human_message :: "message list \<Rightarrow> string" where
  "last_human_message msgs =
     (case filter is_human (rev msgs) of [] \<Rightarrow> [] | m # _ \<Rightarrow> content m)"

text \<open>
  The list that is passed to the extractor and that guards the numeric fallback:
  \<^verbatim>\<open>[field for field in required_fields if field not in current_profile]\<close>.
\<close>

definition missing_fields_for_prompt :: "pydict \<Rightarrow> string list" where
  "missing_fields_for_prompt current_profile =
     filter (\<lambda>field. \<not> dict_contains current_profile field) required_fields"

text \<open>
  The numeric fallback.  The source writes it twice, in the branch without a match and
  in the exception handler, with the same test and the same effect.
\<close>

definition years_fallback :: "pydict \<Rightarrow> string \<Rightarrow> pydict" where
  "years_fallback current_profile user_message =
     (case missing_fields_for_prompt current_profile of
        [] \<Rightarrow> current_profile
      | next_field # _ \<Rightarrow>
          if next_field = ''years_experience''
          then (case findall_digits user_message of
                  [] \<Rightarrow> current_profile
                | n # _ \<Rightarrow> dict_set current_profile ''years_experience'' (Some n))
          else current_profile)"

text \<open>
  The extraction block of \<^verbatim>\<open>onboarding_step_node\<close>: the profile after it.  An exception
  of the extractor call or of \<^verbatim>\<open>json.loads\<close> is caught by the handler.
\<close>

definition extract_profile :: "env \<Rightarrow> pydict \<Rightarrow> string \<Rightarrow> pydict" where
  "extract_profile ev current_profile user_message =
     (if user_message = [] then current_profile
      else
        (case extraction_reply ev of
           Inl e \<Rightarrow> years_fallback current_profile user_message
         | Inr response_str \<Rightarrow>
             (case json_match response_str of
                None \<Rightarrow> years_fallback current_profile user_message
              | Some js \<Rightarrow>
                  (case json_loads ev js of
                     None \<Rightarrow> years_fallback current_profile user_message
                   | Some extracted_data \<Rightarrow> dict_update current_profile extracted_data))))"

text \<open>
  \<^verbatim>\<open>field not in current_profile or not current_profile[field]\<close>
\<close>

definition field_missing :: "pydict \<Rightarrow> string \<Rightarrow> bool" where
  "field_missing current_profile field =
     (if dict_contains current_profile field
      then \<not> truthy (dict_get current_profile field)
      else True)"

definition missing_fields :: "pydict \<Rightarrow> string list" where
  "missing_fields current_profile = filter (field_missing current_profile) required_fields"

definition field_prompts :: "(string \<times> string) list" where
  "field_prompts =
     [(''name'', ''What should I call your brand or what's your name?''),
      (''state'', ''Which state/region in India are you based in?''),
      (''craft_type'', ''What craft do you practice? (e.g., pottery, weaving, woodwork)''),
      (''materials'', ''What materials do you mostly use? (e.g., clay, cotton, bamboo)''),
      (''years_experience'', ''How many years have you been practicing this craft?''),
      (''sales_channels'', ''Where do you usually sell? Online, offline, or both?''),
      (''price_range'', ''What's your typical price range? (e.g., Rs 200-500, premium)''),
      (''languages'', ''Which languages do you speak or want content in?''),
      (''brand_style'',
       ''How would you describe your brand style or voice? (e.g., earthy, premium)'')]"

text \<open>\<^verbatim>\<open>field_prompts.get(next_field_to_ask, f"Please provide your {next_field_to_ask}")\<close>\<close>

definition next_question :: "string \<Rightarrow> string" where
  "next_question next_field_to_ask =
     (case map_of field_prompts next_field_to_ask of
        None \<Rightarrow> ''Please provide your '' @ next_field_to_ask
      | Some q \<Rightarrow> q)"

definition completion_update :: "pydict \<Rightarrow> message list \<Rightarrow> string \<Rightarrow> pyval \<Rightarrow> update" where
  "completion_update current_profile msgs final_text backstory_text =
     no_update
       \<lparr>upd_is_onboarding := Some False,
        upd_user_profile_data := Some current_profile,
        upd_messages := Some (msgs @ [AIMessage final_text]),
        upd_final_response_text := Some final_text,
        upd_backstory := Some backstory_text\<rparr>"

text \<open>
  \<^verbatim>\<open>name = current_profile.get('name', 'there')\<close> and
  \<^verbatim>\<open>f"Great! {name}, your artisan profile is set."\<close>
\<close>

definition completion_text :: "pydict \<Rightarrow> string" where
  "completion_text current_profile =
     ''Great! '' @ py_str (dict_get_default current_profile ''name'' (Some ''there''))
     @ '', your artisan profile is set.''"

text \<open>
  The completion branch of \<^verbatim>\<open>onboarding_step_node\<close>: the profile is saved, the stored
  backstory is read (an exception of the read leaves \<^verbatim>\<open>existing_backstory = None\<close>), and
  when there is none a backstory is generated and saved.  The inner handler catches an
  exception of the generation call and of \<^verbatim>\<open>save_backstory\<close>.
\<close>

definition complete_onboarding ::
  "env \<Rightarrow> store \<Rightarrow> string \<Rightarrow> message list \<Rightarrow> pydict \<Rightarrow> update \<times> store" where
  "complete_onboarding ev db uid msgs current_profile =
     (let db1 = save_user_profile db uid current_profile;
          final_text = completion_text current_profile;
          existing_backstory =
            (if backstory_read_raises ev then None else stored_backstory db1 uid)
      in if truthy existing_backstory
         then (completion_update current_profile msgs final_text None, db1)
         else
           (case backstory_reply ev of
              Inl e \<Rightarrow> (completion_update current_profile msgs final_text None, db1)
            | Inr raw_backstory \<Rightarrow>
                let backstory_text = format_backstory ev raw_backstory
                in if save_backstory_raises ev
                   then (completion_update current_profile msgs final_text None, db1)
                   else (completion_update current_profile msgs
                           (final_text
                            @ '' I've also crafted your brand backstory. You can fetch it anytime.'')
                           (Some backstory_text),
                         save_backstory db1 uid backstory_text)))"

text \<open>
  The profile of the state after the extraction block, on the most recent human message.
\<close>

definition profile_after_extraction :: "env \<Rightarrow> agent_state \<Rightarrow> pydict" where
  "profile_after_extraction ev st =
     extract_profile ev (partial_profile_of st) (last_human_message (messages st))"

definition onboarding_step_node :: "env \<Rightarrow> store \<Rightarrow> agent_state \<Rightarrow> update \<times> store" where
  "onboarding_step_node ev db st =
     (if is_onboarding st \<noteq> Some True then (no_update\<lparr>upd_is_onboarding := Some False\<rparr>, db)
      else
        let msgs = messages st;
            current_profile = profile_after_extraction ev st
        in (case missing_fields current_profile of
              [] \<Rightarrow> complete_onboarding ev db (user_id st) msgs current_profile
            | next_field_to_ask # _ \<Rightarrow>
                (no_update
                   \<lparr>upd_is_onboarding := Some True,
                    upd_user_profile_data := Some current_profile,
                    upd_messages := Some (msgs @ [AIMessage (next_question next_field_to_ask)]),
                    upd_final_response_text := Some (next_question next_field_to_ask)\<rparr>,
                 db)))"

text \<open>
  \<^verbatim>\<open>supervisor_agent_node\<close>.  The profile it reads only fills the prompt.  The call of
  the model is not inside a \<^verbatim>\<open>try\<close>.
\<close>

definition supervisor_agent_node :: "env \<Rightarrow> agent_state \<Rightarrow> string + update" where
  "supervisor_agent_node ev st =
     (case rev (messages st) of
        [] \<Rightarrow> Inl ''list index out of range''
      | query # _ \<Rightarrow>
          (case supervisor_reply ev of
             Inl e \<Rightarrow> Inl e
           | Inr reply \<Rightarrow>
               let answer = py_lower (py_strip reply);
                   final_intent =
                     (if py_in ''welfare'' answer \<or> py_in ''scheme'' answer
                         \<or> py_in ''benefit'' answer
                      then ''welfare_search'' else ''general_query'')
               in Inr (no_update\<lparr>upd_intent := Some final_intent\<rparr>)))"

text \<open>
  \<^verbatim>\<open>welfare_search_node\<close>: the search and the summary are inside one \<^verbatim>\<open>try\<close>, whose
  handler turns the exception into the text of the answer.
\<close>

definition welfare_search_node :: "env \<Rightarrow> agent_state \<Rightarrow> string + update" where
  "welfare_search_node ev st =
     (case rev (messages st) of
        [] \<Rightarrow> Inl ''list index out of range''
      | query # _ \<Rightarrow>
          (case search_reply ev of
             Inl e \<Rightarrow>
               Inr (no_update\<lparr>upd_tool_output := Some (''Unable to search welfare schemes: '' @ e)\<rparr>)
           | Inr search_results \<Rightarrow>
               (case summary_reply ev of
                  Inl e \<Rightarrow>
                    Inr (no_update
                           \<lparr>upd_tool_output := Some (''Unable to search welfare schemes: '' @ e)\<rparr>)
                | Inr concise_response \<Rightarrow>
                    Inr (no_update\<lparr>upd_tool_output := Some concise_response\<rparr>))))"

text \<open>\<^verbatim>\<open>general_query_node\<close>: the call of the model is not inside a \<^verbatim>\<open>try\<close>.\<close>

definition general_query_node :: "env \<Rightarrow> agent_state \<Rightarrow> string + update" where
  "general_query_node ev st =
     (case rev (messages st) of
        [] \<Rightarrow> Inl ''list index out of range''
      | question # _ \<Rightarrow>
          (case general_reply ev of
             Inl e \<Rightarrow> Inl e
           | Inr response \<Rightarrow> Inr (no_update\<lparr>upd_tool_output := Some response\<rparr>)))"

text \<open>\<^verbatim>\<open>final_response_node\<close>: the call of the model is not inside a \<^verbatim>\<open>try\<close>.\<close>

definition final_response_node :: "env \<Rightarrow> agent_state \<Rightarrow> string + update" where
  "final_response_node ev st =
     (let tool_out = (case tool_output st of None \<Rightarrow> [] | Some t \<Rightarrow> t);
          final_text =
            (if py_in ''form'' (py_lower tool_out) then Inr tool_out else final_reply ev)
      in case final_text of
           Inl e \<Rightarrow> Inl e
         | Inr t \<Rightarrow>
             Inr (no_update
                    \<lparr>upd_messages := Some [AIMessage t],
                     upd_final_response_text := Some t\<rparr>))"

section \<open>The graph and the chat endpoint\<close>

definition route_after_checking_profile :: "agent_state \<Rightarrow> string" where
  "route_after_checking_profile st =
     (if is_onboarding st = Some True then ''onboarding_step'' else ''supervisor'')"

definition route_after_supervisor :: "agent_state \<Rightarrow> string" where
  "route_after_supervisor st = (case intent st of None \<Rightarrow> ''general_query'' | Some i \<Rightarrow> i)"

text \<open>The state after the entry node \<^verbatim>\<open>check_user_profile\<close>.\<close>

definition after_check :: "env \<Rightarrow> store \<Rightarrow> agent_state \<Rightarrow> agent_state" where
  "after_check ev db st = apply_update st (check_user_profile_node ev db st)"

text \<open>
  One run of the compiled graph: \<^verbatim>\<open>check_user_profile\<close>, then either
  \<^verbatim>\<open>onboarding_step\<close> and the end, or \<^verbatim>\<open>supervisor\<close>, one of the two handlers and
  \<^verbatim>\<open>structure_final_response\<close>.  An exception of a node ends the run with it.
\<close>

definition workflow_invoke ::
  "env \<Rightarrow> store \<Rightarrow> agent_state \<Rightarrow> (string + agent_state) \<times> store" where
  "workflow_invoke ev db st =
     (let st1 = after_check ev db st
      in if route_after_checking_profile st1 = ''onboarding_step''
         then (case onboarding_step_node ev db st1 of
                 (u, db') \<Rightarrow> (Inr (apply_update st1 u), db'))
         else
           (case supervisor_agent_node ev st1 of
              Inl e \<Rightarrow> (Inl e, db)
            | Inr u1 \<Rightarrow>
                let st2 = apply_update st1 u1
                in (case (if route_after_supervisor st2 = ''welfare_search''
                          then welfare_search_node ev st2
                          else general_query_node ev st2) of
                      Inl e \<Rightarrow> (Inl e, db)
                    | Inr u2 \<Rightarrow>
                        let st3 = apply_update st2 u2
                        in (case final_response_node ev st3 of
                              Inl e \<Rightarrow> (Inl e, db)
                            | Inr u3 \<Rightarrow> (Inr (apply_update st3 u3), db)))))"

fun is_ai :: "message \<Rightarrow> bool" where
  "is_ai (AIMessage s) = True"
| "is_ai (HumanMessage s) = False"

text \<open>\<^verbatim>\<open>coerce_profile_to_strings\<close>: the values that are \<^verbatim>\<open>None\<close> are dropped.\<close>

definition coerce_profile_to_strings :: "pydict \<Rightarrow> (string \<times> string) list" where
  "coerce_profile_to_strings profile =
     List.map_filter (\<lambda>(k, v). case v of None \<Rightarrow> None | Some s \<Rightarrow> Some (k, s)) profile"

text \<open>
  \<^verbatim>\<open>ChatResponse\<close>: \<^verbatim>\<open>response\<close>, \<^verbatim>\<open>is_onboarding\<close>, \<^verbatim>\<open>user_profile\<close> and \<^verbatim>\<open>backstory\<close>.
\<close>

datatype chat_response = ChatResponse string bool "(string \<times> string) list" pyval

datatype http_result = Http_ok chat_response | Http_error nat string

text \<open>The input of a new conversation: \<^verbatim>\<open>messages\<close> and \<^verbatim>\<open>user_id\<close> only.\<close>

definition new_conversation :: "string \<Rightarrow> string \<Rightarrow> agent_state" where
  "new_conversation msg uid =
     \<lparr>messages = [HumanMessage msg], user_id = uid, is_onboarding = None,
      user_profile_data = None, intent = None, tool_output = None,
      final_response_text = None\<rparr>"

text \<open>
  \<^verbatim>\<open>chat_endpoint\<close>.  \<open>current_state\<close> is what the checkpointer holds for the thread of
  the user, \<open>None\<close> when it holds nothing.  The state of a run has no key
  \<^verbatim>\<open>backstory\<close>, so \<^verbatim>\<open>result_state.get("backstory")\<close> is \<^verbatim>\<open>None\<close>.  Every exception
  becomes the status 500.
\<close>

definition chat_endpoint ::
  "env \<Rightarrow> store \<Rightarrow> agent_state option \<Rightarrow> string \<Rightarrow> string \<Rightarrow> http_result \<times> store" where
  "chat_endpoint ev db current_state msg uid =
     (let input_state =
            (case current_state of
               Some vals \<Rightarrow> vals\<lparr>messages := messages vals @ [HumanMessage msg]\<rparr>
             | None \<Rightarrow> new_conversation msg uid)
      in case workflow_invoke ev db input_state of
           (Inl e, db') \<Rightarrow> (Http_error 500 (''Internal server error: '' @ e), db')
         | (Inr result_state, db') \<Rightarrow>
             let final_response =
                   (case filter is_ai (rev (messages result_state)) of
                      [] \<Rightarrow> []
                    | m # _ \<Rightarrow> content m);
                 user_profile0 =
                   (case user_profile_data result_state of None \<Rightarrow> [] | Some p \<Rightarrow> p);
                 user_profile =
                   (if user_profile0 = []
                    then (if response_read_raises ev then user_profile0
                          else (case get_user_profile db' uid of None \<Rightarrow> [] | Some p \<Rightarrow> p))
                    else user_profile0)
             in (Http_ok
                   (ChatResponse
                      (if final_response = []
                       then ''I'm sorry, I couldn't process that request.''
                       else final_response)
                      (is_onboarding result_state = Some True)
                      (coerce_profile_to_strings user_profile)
                      None),
                 db'))"

text \<open>A sequence of turns, each with its own environment and input state: the store after them.\<close>

fun run_turns :: "(env \<times> agent_state) list \<Rightarrow> store \<Rightarrow> store" where
  "run_turns [] db = db"
| "run_turns ((ev, st) # turns) db = run_turns turns (snd (workflow_invoke ev db st))"

section \<open>Sample data\<close>

text \<open>
  An environment in which nothing fails: the extractor answers \<^verbatim>\<open>{}\<close> (no field found),
  the classifier answers \<^verbatim>\<open>general_query\<close>, and the search tool is the one of the source,
  which \<^verbatim>\<open>AgentServices\<close> never sets, so that the call raises.
\<close>

definition sample_env :: env where
  "sample_env =
     \<lparr>profile_read_raises = False,
      extraction_reply = Inr ''{}'',
      json_loads = (\<lambda>s. if s = ''{}'' then Some [] else None),
      backstory_read_raises = False,
      backstory_reply = Inr ''A potter from Jaipur.'',
      format_backstory = (\<lambda>s. s),
      save_backstory_raises = False,
      supervisor_reply = Inr ''general_query'',
      search_reply = Inl ''search unavailable'',
      summary_reply = Inr ''Summary.'',
      general_reply = Inr ''You are welcome.'',
      final_reply = Inr ''You are welcome!'',
      response_read_raises = False\<rparr>"

text \<open>A complete profile, every required field a non-empty string.\<close>

definition sample_profile :: pydict where
  "sample_profile =
     [(''name'', Some ''Asha''), (''state'', Some ''Rajasthan''),
      (''craft_type'', Some ''pottery''), (''materials'', Some ''clay''),
      (''years_experience'', Some ''5''), (''sales_channels'', Some ''offline''),
      (''price_range'', Some ''200-500''), (''languages'', Some ''Hindi''),
      (''brand_style'', Some ''earthy'')]"

text \<open>A state in the middle of onboarding, as the checkpointer hands it to a turn.\<close>

definition onboarding_state :: "string \<Rightarrow> pydict \<Rightarrow> message list \<Rightarrow> agent_state" where
  "onboarding_state uid p msgs =
     \<lparr>messages = msgs, user_id = uid, is_onboarding = Some True, user_profile_data = Some p,
      intent = None, tool_output = None, final_response_text = None\<rparr>"

section \<open>The store: frame and round trip\<close>

lemma map_of_fold_update:
  "map_of (fold (\<lambda>(c, v). AList.update c v) as r) k =
     (case map_of (rev as) k of Some v \<Rightarrow> Some v | None \<Rightarrow> map_of r k)"
  by (induction as arbitrary: r) (auto simp: update_conv' map_add_def split: option.splits)

lemma map_of_rev_params:
  "map_of (rev (map (\<lambda>c. (c, f c)) cs)) k = (if k \<in> set cs then Some (f k) else None)"
  by (induction cs) (auto simp: map_add_def split: option.splits)

lemma map_of_params:
  "map_of (map (\<lambda>c. (c, f c)) cs) k = (if k \<in> set cs then Some (f k) else None)"
  by (induction cs) auto

lemma backstory_not_column: "''backstory'' \<notin> set profile_columns"
  by (simp add: profile_columns_def)

lemma user_id_not_column: "''user_id'' \<notin> set profile_columns"
  by (simp add: profile_columns_def)

lemma save_user_profile_row:
  "save_user_profile db u p u =
    (case db u of
       None \<Rightarrow> Some (map (\<lambda>c. (c, dict_get p c)) profile_columns @ [(''backstory'', None)])
     | Some r \<Rightarrow>
         Some (fold (\<lambda>(c, v). AList.update c v) (map (\<lambda>c. (c, dict_get p c)) profile_columns) r))"
  by (simp add: save_user_profile_def get_user_profile_def sql_update_def sql_insert_def Let_def
      split: option.splits)

lemma save_user_profile_other: "u' \<noteq> u \<Longrightarrow> save_user_profile db u p u' = db u'"
  by (simp add: save_user_profile_def get_user_profile_def sql_update_def sql_insert_def Let_def
      split: option.splits)

lemma stored_backstory_row:
  "stored_backstory db u = (case db u of None \<Rightarrow> None | Some r \<Rightarrow> dict_get r ''backstory'')"
  by (simp add: stored_backstory_def get_user_profile_def dict_get_def split: option.splits)

lemma stored_backstory_save_user_profile:
  "stored_backstory (save_user_profile db u p) u' = stored_backstory db u'"
proof (cases "u' = u")
  case True
  show ?thesis unfolding True stored_backstory_row save_user_profile_row
    by (cases "db u")
      (simp_all add: dict_get_def map_of_fold_update map_of_rev_params map_of_params
        map_add_def backstory_not_column)
next
  case False
  then show ?thesis by (simp add: stored_backstory_row save_user_profile_other)
qed

lemma stored_backstory_save_backstory:
  "stored_backstory (save_backstory db u t) u' =
     (if u' = u \<and> db u \<noteq> None then Some t else stored_backstory db u')"
  by (auto simp: stored_backstory_row save_backstory_def sql_update_def dict_get_def update_conv'
      split: option.splits)


text \<open>
  Claim C10.  \<^verbatim>\<open>save_user_profile\<close> never writes the column \<^verbatim>\<open>backstory\<close>, in its insert
  branch or in its update branch: for every store, every user and every profile mapping,
  the backstory read for any user after the call is the one read before it.
  \<^verbatim>\<open>save_backstory\<close> is the operation that sets it, for the row of its user when there is
  one, and for no other row.
\<close>

theorem save_user_profile_keeps_backstory:
  "stored_backstory (save_user_profile db uid profile_data) uid' = stored_backstory db uid'
   \<and> stored_backstory (save_backstory db uid t) uid' =
       (if uid' = uid \<and> db uid \<noteq> None then Some t else stored_backstory db uid')"
  by (simp add: stored_backstory_save_user_profile stored_backstory_save_backstory)

theorem save_user_profile_keeps_backstory_witness:
  "stored_backstory
     (save_user_profile
        (Map.empty(''u1'' \<mapsto> [(''name'', Some ''Asha''), (''backstory'', Some ''Potter'')]))
        ''u1'' [(''name'', Some ''Asha Devi''), (''backstory'', Some ''Other'')]) ''u1''
   = Some ''Potter''"
  using save_user_profile_keeps_backstory
    [of "Map.empty(''u1'' \<mapsto> [(''name'', Some ''Asha''), (''backstory'', Some ''Potter'')])"
      "''u1''" "[(''name'', Some ''Asha Devi''), (''backstory'', Some ''Other'')]" "''u1''"]
  by (simp add: stored_backstory_def get_user_profile_def dict_get_def)




section \<open>The onboarding step\<close>



lemma onboarding_step_complete:
  assumes "is_onboarding st = Some True"
    and "missing_fields (profile_after_extraction ev st) = []"
  shows "onboarding_step_node ev db st =
     complete_onboarding ev db (user_id st) (messages st) (profile_after_extraction ev st)"
  using assms by (simp add: onboarding_step_node_def Let_def)



lemma sample_env_simps [simp]:
  "extraction_reply sample_env = Inr ''{}''"
  "json_loads sample_env ''{}'' = Some []"
  "profile_read_raises sample_env = False"
  "backstory_read_raises sample_env = False"
  "backstory_reply sample_env = Inr ''A potter from Jaipur.''"
  "format_backstory sample_env s = s"
  "save_backstory_raises sample_env = False"
  "supervisor_reply sample_env = Inr ''general_query''"
  "general_reply sample_env = Inr ''You are welcome.''"
  "final_reply sample_env = Inr ''You are welcome!''"
  "response_read_raises sample_env = False"
  by (simp_all add: sample_env_def)

lemma json_match_braces [simp]: "json_match ''{}'' = Some ''{}''"
  by (simp add: json_match_def)

lemma sample_extract [simp]: "m \<noteq> [] \<Longrightarrow> extract_profile sample_env p m = p"
  by (simp add: extract_profile_def dict_update_def)

lemma onboarding_state_simps [simp]:
  "messages (onboarding_state uid p msgs) = msgs"
  "user_id (onboarding_state uid p msgs) = uid"
  "is_onboarding (onboarding_state uid p msgs) = Some True"
  "user_profile_data (onboarding_state uid p msgs) = Some p"
  "partial_profile_of (onboarding_state uid p msgs) = p"
  by (simp_all add: onboarding_state_def partial_profile_of_def)


section \<open>The numeric fallback\<close>

text \<open>
  Claim C5: when the extractor gives no parseable object, the numeric fallback fires only
  when the field that is currently missing, the one the step asks for, is
  \<^verbatim>\<open>years_experience\<close>; for any other missing field no field of the profile is
  updated.  The guard of the fallback reads the list of the keys that are absent
  (\<^verbatim>\<open>field not in current_profile\<close>), while the question is chosen from the list of
  the keys that are absent or empty.  With a profile that holds \<^verbatim>\<open>state\<close> as the empty
  string, the step asks for \<^verbatim>\<open>state\<close>, and on a failing extractor call the fallback
  still fires: the answer \<^verbatim>\<open>Plot 12, Jaipur\<close> sets \<^verbatim>\<open>years_experience\<close> to \<^verbatim>\<open>12\<close>.
\<close>

theorem numeric_fallback_fires_for_other_field:
  "missing_fields
     [(''name'', Some ''Asha''), (''state'', Some ''''), (''craft_type'', Some ''pottery''),
      (''materials'', Some ''clay'')]
     = [''state'', ''years_experience'', ''sales_channels'', ''price_range'', ''languages'',
        ''brand_style'']
   \<and> onboarding_step_node (sample_env\<lparr>extraction_reply := Inl ''503 unavailable''\<rparr>) Map.empty
       (onboarding_state ''u1''
          [(''name'', Some ''Asha''), (''state'', Some ''''), (''craft_type'', Some ''pottery''),
           (''materials'', Some ''clay'')]
          [HumanMessage ''Plot 12, Jaipur''])
     = (no_update
          \<lparr>upd_is_onboarding := Some True,
           upd_user_profile_data :=
             Some [(''name'', Some ''Asha''), (''state'', Some ''''),
                   (''craft_type'', Some ''pottery''), (''materials'', Some ''clay''),
                   (''years_experience'', Some ''12'')],
           upd_messages :=
             Some [HumanMessage ''Plot 12, Jaipur'',
                   AIMessage ''Which state/region in India are you based in?''],
           upd_final_response_text := Some ''Which state/region in India are you based in?''\<rparr>,
        Map.empty)"
  by (simp add: onboarding_step_node_def profile_after_extraction_def extract_profile_def
      last_human_message_def years_fallback_def missing_fields_for_prompt_def required_fields_def
      dict_contains_def is_digit_def dict_set_def missing_fields_def field_missing_def truthy_def
      dict_get_def next_question_def field_prompts_def Let_def)

lemma extraction_without_json:
  assumes "user_message \<noteq> []"
    and "case extraction_reply ev of
           Inl e \<Rightarrow> True
         | Inr response_str \<Rightarrow>
             (case json_match response_str of None \<Rightarrow> True | Some js \<Rightarrow> json_loads ev js = None)"
  shows "extract_profile ev current_profile user_message =
           years_fallback current_profile user_message"
  using assms by (simp add: extract_profile_def split: sum.splits option.splits)

lemma years_fallback_scope:
  "years_fallback p m =
     (if (\<exists>rest. missing_fields_for_prompt p = ''years_experience'' # rest)
         \<and> findall_digits m \<noteq> []
      then dict_set p ''years_experience'' (Some (hd (findall_digits m)))
      else p)"
  by (auto simp: years_fallback_def split: list.splits)

lemma no_empty_values_same_missing:
  assumes "list_all (\<lambda>f. dict_contains p f = truthy (dict_get p f)) required_fields"
  shows "missing_fields_for_prompt p = missing_fields p"
proof -
  have "\<And>f. f \<in> set required_fields \<Longrightarrow> (\<not> dict_contains p f) = field_missing p f"
    using assms by (auto simp: list_all_iff field_missing_def)
  then show ?thesis
    unfolding missing_fields_for_prompt_def missing_fields_def by (auto intro: filter_cong)
qed

section \<open>The entry node\<close>

lemma user_id_after_check [simp]: "user_id (after_check ev db st) = user_id st"
  by (simp add: after_check_def check_user_profile_node_def apply_update_def no_update_def Let_def)

lemma is_onboarding_after_check:
  "user_id st \<noteq> [] \<Longrightarrow>
   is_onboarding (after_check ev db st) =
     Some (profile_read_raises ev \<or> get_user_profile db (user_id st) = None)"
  by (auto simp: after_check_def check_user_profile_node_def apply_update_def no_update_def Let_def
      get_user_profile_def split: option.splits)

lemma is_onboarding_after_check_empty:
  "user_id st = [] \<Longrightarrow> is_onboarding (after_check ev db st) = is_onboarding st"
  by (simp add: after_check_def check_user_profile_node_def apply_update_def no_update_def)

lemma after_check_onboarding:
  assumes "user_id st \<noteq> []"
    and "profile_read_raises ev \<or> get_user_profile db (user_id st) = None"
  shows "after_check ev db st =
    (if length (filter is_human (messages st)) \<le> 1 \<and> partial_profile_of st = []
     then st\<lparr>messages := messages st @ [AIMessage welcome_message],
             is_onboarding := Some True,
             user_profile_data := Some (partial_profile_of st),
             final_response_text := Some welcome_message\<rparr>
     else st\<lparr>is_onboarding := Some True, user_profile_data := Some (partial_profile_of st)\<rparr>)"
  using assms
  by (auto simp: after_check_def check_user_profile_node_def apply_update_def no_update_def Let_def)

lemma after_check_no_user:
  "user_id st = [] \<Longrightarrow> after_check ev db st = st"
  by (simp add: after_check_def check_user_profile_node_def apply_update_def no_update_def)

lemma last_human_message_ai [simp]:
  "last_human_message (msgs @ [AIMessage t]) = last_human_message msgs"
  by (simp add: last_human_message_def)

lemma profile_after_extraction_after_check:
  assumes "is_onboarding (after_check ev db st) = Some True"
  shows "profile_after_extraction ev' (after_check ev db st) = profile_after_extraction ev' st"
proof (cases "user_id st = []")
  case True
  then show ?thesis by (simp add: after_check_no_user)
next
  case False
  with assms have "profile_read_raises ev \<or> get_user_profile db (user_id st) = None"
    by (simp add: is_onboarding_after_check)
  from after_check_onboarding [OF False this] show ?thesis
    by (simp add: profile_after_extraction_def partial_profile_of_def split: option.splits)
qed

lemma workflow_invoke_onboarding:
  assumes "is_onboarding (after_check ev db st) = Some True"
  shows "workflow_invoke ev db st =
     (Inr (apply_update (after_check ev db st)
             (fst (onboarding_step_node ev db (after_check ev db st)))),
      snd (onboarding_step_node ev db (after_check ev db st)))"
  using assms
  by (simp add: workflow_invoke_def Let_def route_after_checking_profile_def split: prod.splits)

section \<open>Completion and the backstory\<close>




section \<open>The onboarding flag\<close>

text \<open>
  Claim C1, amended.  For a turn with a non-empty \<^verbatim>\<open>user_id\<close> whose store read succeeds,
  and a store in which the row of the user, if there is one, is complete (every required
  field present and non-empty, as in every row the onboarding step writes): after
  \<^verbatim>\<open>check_user_profile\<close> the flag \<^verbatim>\<open>is_onboarding\<close> is true if and only if no persisted
  complete profile exists for the user, and false otherwise; the inbound value of the
  flag has no influence on it.  When the store read raises, the flag is true.
\<close>

theorem is_onboarding_rederived:
  assumes "user_id st \<noteq> []"
    and "\<not> profile_read_raises ev"
    and "case get_user_profile db (user_id st) of None \<Rightarrow> True | Some r \<Rightarrow> missing_fields r = []"
  shows "(is_onboarding (after_check ev db st) = Some True) =
           (\<not> (\<exists>r. get_user_profile db (user_id st) = Some r \<and> missing_fields r = []))
       \<and> (is_onboarding (after_check ev db st) = Some False) =
           (\<exists>r. get_user_profile db (user_id st) = Some r \<and> missing_fields r = [])
       \<and> is_onboarding (after_check ev db (st\<lparr>is_onboarding := b\<rparr>)) =
           is_onboarding (after_check ev db st)
       \<and> is_onboarding (after_check (ev\<lparr>profile_read_raises := True\<rparr>) db st) = Some True"
  using assms by (auto simp: is_onboarding_after_check split: option.splits)

text \<open>
  Claim C1, as stated: after \<^verbatim>\<open>check_user_profile\<close> the flag is true if and only if no
  persisted complete profile exists for the user, and is never taken from the inbound
  state.  Three turns on which it fails: a stored row that holds a name only (the node
  tests that a row exists, not that it is complete) gives false; a store read that
  raises gives true although a complete profile is stored; an empty \<^verbatim>\<open>user_id\<close> makes
  the node return an error without setting the flag, which keeps its inbound value.
\<close>

theorem is_onboarding_rederived_counterexample:
  "is_onboarding
     (after_check sample_env (Map.empty(''u1'' \<mapsto> [(''name'', Some ''Asha'')]))
        (new_conversation ''Hi'' ''u1'')) = Some False
   \<and> map_option missing_fields
       (get_user_profile (Map.empty(''u1'' \<mapsto> [(''name'', Some ''Asha'')])) ''u1'')
     = Some [''state'', ''craft_type'', ''materials'', ''years_experience'', ''sales_channels'',
             ''price_range'', ''languages'', ''brand_style'']
   \<and> is_onboarding
       (after_check (sample_env\<lparr>profile_read_raises := True\<rparr>)
          (Map.empty(''u1'' \<mapsto> sample_profile)) (new_conversation ''Hi'' ''u1'')) = Some True
   \<and> map_option missing_fields (get_user_profile (Map.empty(''u1'' \<mapsto> sample_profile)) ''u1'')
     = Some []
   \<and> is_onboarding (after_check sample_env Map.empty (new_conversation ''Hi'' '''')) = None
   \<and> is_onboarding
       (after_check sample_env Map.empty
          ((new_conversation ''Hi'' '''')\<lparr>is_onboarding := Some False\<rparr>)) = Some False
   \<and> get_user_profile Map.empty '''' = None"
  by (simp add: is_onboarding_after_check is_onboarding_after_check_empty new_conversation_def
      get_user_profile_def missing_fields_def required_fields_def field_missing_def
      dict_contains_def dict_get_def truthy_def sample_profile_def)

theorem is_onboarding_rederived_witness:
  "is_onboarding
     (after_check sample_env (Map.empty(''u1'' \<mapsto> sample_profile))
        ((new_conversation ''Hi'' ''u1'')\<lparr>is_onboarding := Some True\<rparr>)) = Some False
   \<and> is_onboarding
       (after_check sample_env (Map.empty(''u1'' \<mapsto> sample_profile))
          (new_conversation ''Hi'' ''u2'')) = Some True"
proof -
  let ?db = "Map.empty(''u1'' \<mapsto> sample_profile)"
  have m: "missing_fields ((''user_id'', Some ''u1'') # sample_profile) = []"
    by (simp add: missing_fields_def required_fields_def field_missing_def dict_contains_def
        dict_get_def truthy_def sample_profile_def)
  have g1: "get_user_profile ?db ''u1'' = Some ((''user_id'', Some ''u1'') # sample_profile)"
    by (simp add: get_user_profile_def)
  have g2: "get_user_profile ?db ''u2'' = None"
    by (simp add: get_user_profile_def)
  have u1: "user_id (new_conversation ''Hi'' ''u1'') \<noteq> []"
    and u2: "user_id (new_conversation ''Hi'' ''u2'') \<noteq> []"
    by (simp_all add: new_conversation_def)
  have e: "\<not> profile_read_raises sample_env" by simp
  have c1: "case get_user_profile ?db (user_id (new_conversation ''Hi'' ''u1'')) of
              None \<Rightarrow> True | Some r \<Rightarrow> missing_fields r = []"
    by (simp add: new_conversation_def g1 m)
  have c2: "case get_user_profile ?db (user_id (new_conversation ''Hi'' ''u2'')) of
              None \<Rightarrow> True | Some r \<Rightarrow> missing_fields r = []"
    by (simp add: new_conversation_def g2)
  from is_onboarding_rederived [OF u1 e c1, of "Some True"]
  have a: "is_onboarding (after_check sample_env ?db
             ((new_conversation ''Hi'' ''u1'')\<lparr>is_onboarding := Some True\<rparr>)) = Some False"
    by (simp add: new_conversation_def g1 m)
  from is_onboarding_rederived [OF u2 e c2, of None]
  have b: "is_onboarding (after_check sample_env ?db (new_conversation ''Hi'' ''u2'')) = Some True"
    by (simp add: new_conversation_def g2)
  show ?thesis using a b by simp
qed

section \<open>The first turn\<close>

lemma missing_fields_empty: "missing_fields [] = required_fields"
  by (simp add: missing_fields_def field_missing_def dict_contains_def)

lemma name_question:
  "next_question ''name'' = ''What should I call your brand or what's your name?''"
  by (simp add: next_question_def field_prompts_def)




section \<open>The backstory is generated once\<close>

lemma stored_backstory_complete_onboarding:
  assumes "truthy (stored_backstory db uid)" and "\<not> backstory_read_raises ev"
  shows "stored_backstory (snd (complete_onboarding ev db u msgs p)) uid = stored_backstory db uid"
proof (cases "u = uid")
  case True
  with assms show ?thesis
    by (simp add: complete_onboarding_def Let_def stored_backstory_save_user_profile)
next
  case False
  then show ?thesis
    by (simp add: complete_onboarding_def Let_def stored_backstory_save_user_profile
        stored_backstory_save_backstory split: sum.splits)
qed

lemma onboarding_step_keeps_backstory:
  assumes "truthy (stored_backstory db uid)" and "\<not> backstory_read_raises ev"
  shows "stored_backstory (snd (onboarding_step_node ev db st)) uid = stored_backstory db uid"
  using stored_backstory_complete_onboarding [OF assms]
  by (simp add: onboarding_step_node_def Let_def split: list.splits)

lemma workflow_invoke_store:
  "snd (workflow_invoke ev db st) =
     (if route_after_checking_profile (after_check ev db st) = ''onboarding_step''
      then snd (onboarding_step_node ev db (after_check ev db st)) else db)"
  by (simp add: workflow_invoke_def Let_def split: prod.splits sum.splits)

lemma workflow_invoke_keeps_backstory:
  assumes "truthy (stored_backstory db uid)" and "\<not> backstory_read_raises ev"
  shows "stored_backstory (snd (workflow_invoke ev db st)) uid = stored_backstory db uid"
  using onboarding_step_keeps_backstory [OF assms]
  by (simp add: workflow_invoke_store)

lemma run_turns_keep_backstory:
  assumes "truthy (stored_backstory db uid)"
    and "list_all (\<lambda>turn. \<not> backstory_read_raises (fst turn)) turns"
  shows "stored_backstory (run_turns turns db) uid = stored_backstory db uid"
  using assms
proof (induction turns arbitrary: db)
  case Nil
  then show ?case by simp
next
  case (Cons t turns)
  obtain ev st where t: "t = (ev, st)" by (cases t)
  have ok: "\<not> backstory_read_raises ev" using Cons.prems(2) t by simp
  have keep: "stored_backstory (snd (workflow_invoke ev db st)) uid = stored_backstory db uid"
    by (rule workflow_invoke_keeps_backstory [OF Cons.prems(1) ok])
  have "stored_backstory (run_turns turns (snd (workflow_invoke ev db st))) uid =
        stored_backstory (snd (workflow_invoke ev db st)) uid"
    using Cons.prems keep by (intro Cons.IH) simp_all
  then show ?case using keep t by simp
qed

lemma complete_onboarding_guarded:
  assumes "truthy (stored_backstory db uid)" and "\<not> backstory_read_raises ev"
  shows "complete_onboarding ev db uid msgs p =
     (completion_update p msgs (completion_text p) None, save_user_profile db uid p)"
  using assms
  by (simp add: complete_onboarding_def Let_def stored_backstory_save_user_profile)

lemma extract_profile_cong:
  "extraction_reply ev' = extraction_reply ev \<Longrightarrow> json_loads ev' = json_loads ev \<Longrightarrow>
   extract_profile ev' p m = extract_profile ev p m"
  by (simp add: extract_profile_def split: sum.splits option.splits)

lemma onboarding_step_ignores_generation:
  assumes "truthy (stored_backstory db (user_id st))" and "\<not> backstory_read_raises ev"
  shows "onboarding_step_node
           (ev\<lparr>backstory_reply := r, format_backstory := g, save_backstory_raises := b\<rparr>) db st
         = onboarding_step_node ev db st
       \<and> upd_backstory (fst (onboarding_step_node ev db st)) \<in> {None, Some None}"
proof -
  let ?ev' = "ev\<lparr>backstory_reply := r, format_backstory := g, save_backstory_raises := b\<rparr>"
  have ex: "profile_after_extraction ?ev' st = profile_after_extraction ev st"
    unfolding profile_after_extraction_def by (rule extract_profile_cong) simp_all
  have r': "\<not> backstory_read_raises ?ev'" using assms(2) by simp
  show ?thesis
    using complete_onboarding_guarded [OF assms(1) r'] complete_onboarding_guarded [OF assms]
    by (simp add: onboarding_step_node_def Let_def ex completion_update_def no_update_def
        split: list.splits)
qed

text \<open>
  Claim C2, amended.  For a user who has a stored, non-empty backstory, an onboarding
  step in which the store read that looks for an existing backstory succeeds never
  generates or overwrites it: the stored backstory is the same after the step, the step
  is the same whatever the generation call would answer (it is not consulted), and the
  step returns no backstory.  Hence any sequence of turns, of any users, whose reads of
  that kind succeed leaves the stored backstory of the user as it was.
\<close>

theorem stored_backstory_never_regenerated:
  assumes "truthy (stored_backstory db (user_id st))"
    and "\<not> backstory_read_raises ev"
    and "list_all (\<lambda>turn. \<not> backstory_read_raises (fst turn)) turns"
  shows "stored_backstory (snd (onboarding_step_node ev db st)) (user_id st)
           = stored_backstory db (user_id st)
       \<and> onboarding_step_node
           (ev\<lparr>backstory_reply := r, format_backstory := g, save_backstory_raises := b\<rparr>) db st
           = onboarding_step_node ev db st
       \<and> upd_backstory (fst (onboarding_step_node ev db st)) \<in> {None, Some None}
       \<and> stored_backstory (run_turns turns db) (user_id st) = stored_backstory db (user_id st)"
  using onboarding_step_keeps_backstory [OF assms(1,2)]
    onboarding_step_ignores_generation [OF assms(1,2)]
    run_turns_keep_backstory [OF assms(1,3)]
  by simp

text \<open>
  Claim C2, as stated: on a completion-eligible turn the step generates and persists a
  backstory only if none is stored for the user.  The handler around the read that looks
  for the stored backstory sets \<^verbatim>\<open>existing_backstory = None\<close> when the read raises; the
  step then generates a backstory and writes it over the stored one.
\<close>

theorem stored_backstory_regenerated_counterexample:
  "stored_backstory (Map.empty(''u1'' \<mapsto> sample_profile @ [(''backstory'', Some ''Old story'')])) ''u1''
     = Some ''Old story''
   \<and> missing_fields (profile_after_extraction (sample_env\<lparr>backstory_read_raises := True\<rparr>)
        (onboarding_state ''u1'' sample_profile [HumanMessage ''thanks''])) = []
   \<and> stored_backstory
       (snd (onboarding_step_node (sample_env\<lparr>backstory_read_raises := True\<rparr>)
          (Map.empty(''u1'' \<mapsto> sample_profile @ [(''backstory'', Some ''Old story'')]))
          (onboarding_state ''u1'' sample_profile [HumanMessage ''thanks''])))
       ''u1''
     = Some ''A potter from Jaipur.''
   \<and> upd_backstory
       (fst (onboarding_step_node (sample_env\<lparr>backstory_read_raises := True\<rparr>)
          (Map.empty(''u1'' \<mapsto> sample_profile @ [(''backstory'', Some ''Old story'')]))
          (onboarding_state ''u1'' sample_profile [HumanMessage ''thanks''])))
     = Some (Some ''A potter from Jaipur.'')"
proof -
  let ?ev = "sample_env\<lparr>backstory_read_raises := True\<rparr>"
  let ?db = "Map.empty(''u1'' \<mapsto> sample_profile @ [(''backstory'', Some ''Old story'')])"
  let ?st = "onboarding_state ''u1'' sample_profile [HumanMessage ''thanks'']"
  have old: "stored_backstory ?db ''u1'' = Some ''Old story''"
    by (simp add: stored_backstory_row dict_get_def sample_profile_def)
  have p: "profile_after_extraction ?ev ?st = sample_profile"
    by (simp add: profile_after_extraction_def last_human_message_def extract_profile_def
        dict_update_def)
  have m: "missing_fields sample_profile = []"
    by (simp add: missing_fields_def required_fields_def field_missing_def dict_contains_def
        dict_get_def truthy_def sample_profile_def)
  have node: "onboarding_step_node ?ev ?db ?st =
      complete_onboarding ?ev ?db ''u1'' [HumanMessage ''thanks''] sample_profile"
    using onboarding_step_complete [of ?st ?ev ?db] by (simp add: p m)
  have c: "complete_onboarding ?ev ?db ''u1'' [HumanMessage ''thanks''] sample_profile =
     (completion_update sample_profile [HumanMessage ''thanks'']
        (completion_text sample_profile
         @ '' I've also crafted your brand backstory. You can fetch it anytime.'')
        (Some ''A potter from Jaipur.''),
      save_backstory (save_user_profile ?db ''u1'' sample_profile) ''u1'' ''A potter from Jaipur.'')"
    by (simp add: complete_onboarding_def Let_def truthy_def)
  have row: "save_user_profile ?db ''u1'' sample_profile ''u1'' \<noteq> None"
    by (simp add: save_user_profile_row)
  show ?thesis
    by (simp add: old p m node c stored_backstory_save_backstory row completion_update_def
        no_update_def)
qed

theorem stored_backstory_never_regenerated_witness:
  "stored_backstory
     (snd (onboarding_step_node sample_env
        (Map.empty(''u1'' \<mapsto> sample_profile @ [(''backstory'', Some ''Old story'')]))
        (onboarding_state ''u1'' sample_profile [HumanMessage ''thanks''])))
     ''u1''
   = Some ''Old story''
   \<and> stored_backstory
       (run_turns
          [(sample_env\<lparr>profile_read_raises := True\<rparr>,
            onboarding_state ''u1'' sample_profile [HumanMessage ''thanks'']),
           (sample_env, new_conversation ''hello'' ''u2'')]
          (Map.empty(''u1'' \<mapsto> sample_profile @ [(''backstory'', Some ''Old story'')])))
       ''u1''
     = Some ''Old story''"
proof -
  let ?db = "Map.empty(''u1'' \<mapsto> sample_profile @ [(''backstory'', Some ''Old story'')])"
  let ?st = "onboarding_state ''u1'' sample_profile [HumanMessage ''thanks'']"
  let ?turns = "[(sample_env\<lparr>profile_read_raises := True\<rparr>, ?st),
                 (sample_env, new_conversation ''hello'' ''u2'')]"
  have old: "stored_backstory ?db ''u1'' = Some ''Old story''"
    by (simp add: stored_backstory_row dict_get_def sample_profile_def)
  have h1: "truthy (stored_backstory ?db (user_id ?st))" by (simp add: old truthy_def)
  have h2: "\<not> backstory_read_raises sample_env" by simp
  have h3: "list_all (\<lambda>turn. \<not> backstory_read_raises (fst turn)) ?turns" by simp
  from stored_backstory_never_regenerated [OF h1 h2 h3] show ?thesis
    by (simp add: old)
qed

section \<open>Failures of the model outside onboarding\<close>

lemma after_check_stored:
  assumes "user_id st \<noteq> []" and "\<not> profile_read_raises ev"
    and "get_user_profile db (user_id st) = Some r"
  shows "after_check ev db st = st\<lparr>is_onboarding := Some False, user_profile_data := Some r\<rparr>"
  using assms
  by (auto simp: after_check_def check_user_profile_node_def apply_update_def no_update_def Let_def
      get_user_profile_def split: option.splits)

lemma new_conversation_simps [simp]:
  "messages (new_conversation m u) = [HumanMessage m]"
  "user_id (new_conversation m u) = u"
  "is_onboarding (new_conversation m u) = None"
  "user_profile_data (new_conversation m u) = None"
  "intent (new_conversation m u) = None"
  "tool_output (new_conversation m u) = None"
  "final_response_text (new_conversation m u) = None"
  by (simp_all add: new_conversation_def)

lemma supervisor_general_query:
  assumes "supervisor_reply ev = Inr ''general_query''" and "messages st = [HumanMessage m]"
  shows "supervisor_agent_node ev st = Inr (no_update\<lparr>upd_intent := Some ''general_query''\<rparr>)"
  using assms
  by (simp add: supervisor_agent_node_def py_strip_def is_space_def py_lower_def lower_char_def
      Let_def)

text \<open>
  Claim C7: every exception of a call of the language model or of the search during a
  turn is caught at the handler and turned into a valid textual response.  Only
  \<^verbatim>\<open>welfare_search_node\<close> has such a handler.  In \<^verbatim>\<open>supervisor_agent_node\<close>,
  \<^verbatim>\<open>general_query_node\<close> and \<^verbatim>\<open>final_response_node\<close> the exception leaves the node and
  the run of the graph; \<^verbatim>\<open>chat_endpoint\<close> answers with the status 500 and the text of
  the exception.
\<close>

theorem model_failure_propagates:
  "supervisor_agent_node (sample_env\<lparr>supervisor_reply := Inl ''503 Service Unavailable''\<rparr>)
     (new_conversation ''thank you'' ''u1'') = Inl ''503 Service Unavailable''
   \<and> general_query_node (sample_env\<lparr>general_reply := Inl ''503 Service Unavailable''\<rparr>)
       (new_conversation ''thank you'' ''u1'') = Inl ''503 Service Unavailable''
   \<and> final_response_node (sample_env\<lparr>final_reply := Inl ''503 Service Unavailable''\<rparr>)
       ((new_conversation ''thank you'' ''u1'')\<lparr>tool_output := Some ''You are welcome.''\<rparr>)
     = Inl ''503 Service Unavailable''
   \<and> fst (chat_endpoint (sample_env\<lparr>supervisor_reply := Inl ''503 Service Unavailable''\<rparr>)
            (Map.empty(''u1'' \<mapsto> sample_profile)) None ''thank you'' ''u1'')
     = Http_error 500 ''Internal server error: 503 Service Unavailable''
   \<and> fst (chat_endpoint (sample_env\<lparr>general_reply := Inl ''503 Service Unavailable''\<rparr>)
            (Map.empty(''u1'' \<mapsto> sample_profile)) None ''thank you'' ''u1'')
     = Http_error 500 ''Internal server error: 503 Service Unavailable''
   \<and> fst (chat_endpoint (sample_env\<lparr>final_reply := Inl ''503 Service Unavailable''\<rparr>)
            (Map.empty(''u1'' \<mapsto> sample_profile)) None ''thank you'' ''u1'')
     = Http_error 500 ''Internal server error: 503 Service Unavailable''"
proof -
  let ?db = "Map.empty(''u1'' \<mapsto> sample_profile)"
  let ?st = "new_conversation ''thank you'' ''u1''"
  let ?st1 = "?st\<lparr>is_onboarding := Some False,
           user_profile_data := Some ((''user_id'', Some ''u1'') # sample_profile)\<rparr>"
  let ?e = "''503 Service Unavailable''"
  have st1: "\<not> profile_read_raises ev \<Longrightarrow> after_check ev ?db ?st = ?st1" for ev
    by (rule after_check_stored) (simp_all add: get_user_profile_def)
  have route: "route_after_checking_profile ?st1 = ''supervisor''"
    by (simp add: route_after_checking_profile_def)
  have n1: "supervisor_agent_node (sample_env\<lparr>supervisor_reply := Inl ?e\<rparr>) st = Inl ?e"
    if "messages st = [HumanMessage ''thank you'']" for st
    using that by (simp add: supervisor_agent_node_def)
  have n2: "general_query_node (sample_env\<lparr>general_reply := Inl ?e\<rparr>) st = Inl ?e"
    if "messages st = [HumanMessage ''thank you'']" for st
    using that by (simp add: general_query_node_def)
  have n3: "final_response_node (sample_env\<lparr>final_reply := Inl ?e\<rparr>) st = Inl ?e"
    if "tool_output st = Some ''You are welcome.''" for st
    using that by (simp add: final_response_node_def py_lower_def lower_char_def Let_def)
  have w1: "workflow_invoke (sample_env\<lparr>supervisor_reply := Inl ?e\<rparr>) ?db ?st = (Inl ?e, ?db)"
    by (simp add: workflow_invoke_def st1 route n1 Let_def)
  have w2: "workflow_invoke (sample_env\<lparr>general_reply := Inl ?e\<rparr>) ?db ?st = (Inl ?e, ?db)"
    by (simp add: workflow_invoke_def st1 route Let_def
        supervisor_general_query [where m = "''thank you''"] apply_update_def no_update_def
        route_after_supervisor_def n2)
  have w3: "workflow_invoke (sample_env\<lparr>final_reply := Inl ?e\<rparr>) ?db ?st = (Inl ?e, ?db)"
    by (simp add: workflow_invoke_def st1 route Let_def
        supervisor_general_query [where m = "''thank you''"] apply_update_def no_update_def
        route_after_supervisor_def general_query_node_def n3)
  have c: "fst (chat_endpoint ev ?db None ''thank you'' ''u1'') =
             Http_error 500 ''Internal server error: 503 Service Unavailable''"
    if "workflow_invoke ev ?db ?st = (Inl ?e, ?db)" for ev
    using that by (simp add: chat_endpoint_def)
  show ?thesis
    using n1 [of ?st] n2 [of ?st] n3 [of "?st\<lparr>tool_output := Some ''You are welcome.''\<rparr>"]
      c [OF w1] c [OF w2] c [OF w3]
    by simp
qed

section \<open>The identity of the user\<close>

text \<open>
  Claim C8: a request with an empty or blank \<^verbatim>\<open>user_id\<close> is rejected as a client error
  before the graph is invoked.  \<^verbatim>\<open>chat_endpoint\<close> makes no test of the identity: with
  the empty \<^verbatim>\<open>user_id\<close> the graph runs (the node \<^verbatim>\<open>check_user_profile\<close> returns its
  error, the flag stays unset, and the supervisor, the handler and the final node
  answer), and the response is a normal one; with a blank \<^verbatim>\<open>user_id\<close> the onboarding
  of a user of that name starts.
\<close>

theorem empty_user_id_runs_workflow:
  "fst (chat_endpoint sample_env Map.empty None ''Hi'' '''') =
     Http_ok (ChatResponse ''You are welcome!'' False [] None)
   \<and> fst (workflow_invoke sample_env Map.empty (new_conversation ''Hi'' '''')) =
       Inr \<lparr>messages = [AIMessage ''You are welcome!''], user_id = '''', is_onboarding = None,
            user_profile_data = None, intent = Some ''general_query'',
            tool_output = Some ''You are welcome.'',
            final_response_text = Some ''You are welcome!''\<rparr>
   \<and> fst (chat_endpoint sample_env Map.empty None ''Hi'' ''  '') =
       Http_ok (ChatResponse ''What should I call your brand or what's your name?'' True [] None)"
proof -
  let ?st = "new_conversation ''Hi'' ''''"
  have st1: "after_check sample_env Map.empty ?st = ?st"
    by (simp add: after_check_no_user)
  have sup: "supervisor_agent_node sample_env ?st =
      Inr (no_update\<lparr>upd_intent := Some ''general_query''\<rparr>)"
    by (rule supervisor_general_query [where m = "''Hi''"]) simp_all
  have wf: "workflow_invoke sample_env Map.empty ?st =
       (Inr \<lparr>messages = [AIMessage ''You are welcome!''], user_id = '''', is_onboarding = None,
            user_profile_data = None, intent = Some ''general_query'',
            tool_output = Some ''You are welcome.'',
            final_response_text = Some ''You are welcome!''\<rparr>, Map.empty)"
    by (simp add: workflow_invoke_def st1 route_after_checking_profile_def sup Let_def)
      (simp add: new_conversation_def apply_update_def no_update_def route_after_supervisor_def
        general_query_node_def final_response_node_def py_lower_def lower_char_def Let_def)
  have c1: "fst (chat_endpoint sample_env Map.empty None ''Hi'' '''') =
     Http_ok (ChatResponse ''You are welcome!'' False [] None)"
    by (simp add: chat_endpoint_def wf Let_def get_user_profile_def coerce_profile_to_strings_def
        map_filter_simps)
  have st2: "after_check sample_env Map.empty (new_conversation ''Hi'' ''  '') =
      \<lparr>messages = [HumanMessage ''Hi'', AIMessage welcome_message], user_id = ''  '',
       is_onboarding = Some True, user_profile_data = Some [], intent = None,
       tool_output = None, final_response_text = Some welcome_message\<rparr>"
    by (simp add: after_check_def check_user_profile_node_def apply_update_def no_update_def
        new_conversation_def partial_profile_of_def get_user_profile_def Let_def)
  have p: "profile_after_extraction sample_env
             (after_check sample_env Map.empty (new_conversation ''Hi'' ''  '')) = []"
    by (simp add: st2 profile_after_extraction_def partial_profile_of_def last_human_message_def)
  have node: "onboarding_step_node sample_env Map.empty
        (after_check sample_env Map.empty (new_conversation ''Hi'' ''  '')) =
      (no_update
        \<lparr>upd_is_onboarding := Some True,
         upd_user_profile_data := Some [],
         upd_messages :=
           Some [HumanMessage ''Hi'', AIMessage welcome_message,
                 AIMessage (next_question ''name'')],
         upd_final_response_text := Some (next_question ''name'')\<rparr>, Map.empty)"
    by (simp add: onboarding_step_node_def p missing_fields_empty required_fields_def Let_def)
      (simp add: st2)
  have c2: "fst (chat_endpoint sample_env Map.empty None ''Hi'' ''  '') =
       Http_ok (ChatResponse ''What should I call your brand or what's your name?'' True [] None)"
    by (simp add: chat_endpoint_def workflow_invoke_def Let_def route_after_checking_profile_def
        node)
      (simp add: st2 apply_update_def no_update_def name_question get_user_profile_def
        coerce_profile_to_strings_def map_filter_simps)
  show ?thesis using c1 c2 wf by simp
qed

section \<open>Further properties\<close>

lemma required_are_columns: "set required_fields \<subseteq> set profile_columns"
  by (simp add: required_fields_def profile_columns_def)

lemma missing_fields_cong:
  assumes "\<And>f. f \<in> set required_fields \<Longrightarrow> map_of q f = map_of p f"
  shows "missing_fields q = missing_fields p"
  unfolding missing_fields_def
  by (rule filter_cong [OF refl])
    (simp add: field_missing_def dict_contains_def dict_get_def assms)

lemma saved_row_required:
  assumes "f \<in> set required_fields"
  shows "map_of ((''user_id'', Some u) # the (save_user_profile db u p u)) f = Some (dict_get p f)"
proof -
  have c: "f \<in> set profile_columns" using assms required_are_columns by blast
  then have "f \<noteq> ''user_id''" using user_id_not_column by auto
  with c show ?thesis
    by (cases "db u")
      (auto simp: save_user_profile_row map_of_fold_update map_of_rev_params map_of_params
        map_add_def)
qed

lemma complete_profile_saved_complete:
  assumes "missing_fields p = []"
  shows "missing_fields ((''user_id'', Some u) # the (save_user_profile db u p u)) = []"
proof -
  let ?row = "(''user_id'', Some u) # the (save_user_profile db u p u)"
  have "\<not> field_missing ?row f" if f: "f \<in> set required_fields" for f
  proof -
    have "\<not> field_missing p f"
      using assms f by (auto simp: missing_fields_def filter_empty_conv)
    then have t: "truthy (dict_get p f)"
      by (simp add: field_missing_def split: if_splits)
    have "map_of ?row f = Some (dict_get p f)" by (rule saved_row_required [OF f])
    then have "dict_contains ?row f" and "dict_get ?row f = dict_get p f"
      by (simp_all add: dict_contains_def dict_get_def)
    with t show ?thesis by (simp add: field_missing_def)
  qed
  then show ?thesis by (auto simp: missing_fields_def filter_empty_conv)
qed

lemma get_user_profile_save_user_profile:
  "get_user_profile (save_user_profile db u p) u' =
     (if u' = u then Some ((''user_id'', Some u) # the (save_user_profile db u p u))
      else get_user_profile db u')"
  by (cases "db u") (auto simp: get_user_profile_def save_user_profile_row save_user_profile_other)

lemma get_user_profile_save_backstory:
  "get_user_profile (save_backstory db u t) u' = Some r' \<Longrightarrow>
   \<exists>r. get_user_profile db u' = Some r \<and> missing_fields r' = missing_fields r"
proof (cases "u' = u")
  case False
  assume "get_user_profile (save_backstory db u t) u' = Some r'"
  with False show ?thesis
    by (auto simp: get_user_profile_def save_backstory_def sql_update_def split: option.splits)
next
  case True
  assume a: "get_user_profile (save_backstory db u t) u' = Some r'"
  then obtain r0 where r0: "db u = Some r0"
    and r': "r' = (''user_id'', Some u) # AList.update ''backstory'' (Some t) r0"
    using True
    by (auto simp: get_user_profile_def save_backstory_def sql_update_def split: option.splits)
  have "missing_fields r' = missing_fields ((''user_id'', Some u) # r0)"
    by (rule missing_fields_cong) (auto simp: r' update_conv' required_fields_def)
  with r0 True show ?thesis by (simp add: get_user_profile_def)
qed

lemma complete_onboarding_rows_complete:
  assumes inv: "\<And>u r. get_user_profile db u = Some r \<Longrightarrow> missing_fields r = []"
    and p: "missing_fields p = []"
    and g: "get_user_profile (snd (complete_onboarding ev db uid msgs p)) u' = Some r'"
  shows "missing_fields r' = []"
proof -
  let ?db1 = "save_user_profile db uid p"
  have inv1: "missing_fields r = []" if "get_user_profile ?db1 u = Some r" for u r
    using that inv complete_profile_saved_complete [OF p, of uid db]
    by (auto simp: get_user_profile_save_user_profile split: if_splits)
  have "snd (complete_onboarding ev db uid msgs p) = ?db1 \<or>
        (\<exists>t. snd (complete_onboarding ev db uid msgs p) = save_backstory ?db1 uid t)"
    by (auto simp: complete_onboarding_def Let_def split: sum.splits)
  then show ?thesis
  proof
    assume "snd (complete_onboarding ev db uid msgs p) = ?db1"
    with g inv1 show ?thesis by simp
  next
    assume "\<exists>t. snd (complete_onboarding ev db uid msgs p) = save_backstory ?db1 uid t"
    then obtain t where "snd (complete_onboarding ev db uid msgs p) = save_backstory ?db1 uid t" ..
    with g obtain r where "get_user_profile ?db1 u' = Some r" "missing_fields r' = missing_fields r"
      using get_user_profile_save_backstory [of ?db1 uid t u' r'] by auto
    with inv1 show ?thesis by simp
  qed
qed

theorem workflow_writes_complete_rows:
  assumes "\<And>u r. get_user_profile db u = Some r \<Longrightarrow> missing_fields r = []"
    and "get_user_profile (snd (workflow_invoke ev db st)) u' = Some r'"
  shows "missing_fields r' = []"
proof (cases "route_after_checking_profile (after_check ev db st) = ''onboarding_step''")
  case False
  with assms show ?thesis by (simp add: workflow_invoke_store)
next
  case True
  let ?st1 = "after_check ev db st"
  have s: "snd (workflow_invoke ev db st) = snd (onboarding_step_node ev db ?st1)"
    using True by (simp add: workflow_invoke_store)
  show ?thesis
  proof (cases "is_onboarding ?st1 = Some True \<and> missing_fields (profile_after_extraction ev ?st1) = []")
    case True
    then have "onboarding_step_node ev db ?st1 =
      complete_onboarding ev db (user_id ?st1) (messages ?st1) (profile_after_extraction ev ?st1)"
      by (simp add: onboarding_step_complete)
    with assms(2) s True show ?thesis
      using complete_onboarding_rows_complete
        [where db = db and p = "profile_after_extraction ev ?st1" and ev = ev
           and uid = "user_id ?st1" and msgs = "messages ?st1" and u' = u' and r' = r',
         OF assms(1)]
      by auto
  next
    case False
    then have "snd (onboarding_step_node ev db ?st1) = db"
      by (auto simp: onboarding_step_node_def Let_def split: list.splits)
    with assms s show ?thesis by simp
  qed
qed

text \<open>
  Every row of \<^verbatim>\<open>user_profiles\<close> that the workflow writes is complete: when every stored
  row is complete (as in the empty database), every row is complete after any sequence
  of turns.  On such a store, the test of \<^verbatim>\<open>check_user_profile_node\<close> that a row exists
  is the test that a complete profile exists.
\<close>

theorem turns_keep_rows_complete:
  assumes "\<forall>u r. get_user_profile db u = Some r \<longrightarrow> missing_fields r = []"
    and "get_user_profile (run_turns turns db) u' = Some r'"
  shows "missing_fields r' = []"
  using assms
proof (induction turns arbitrary: db)
  case Nil
  then show ?case by simp
next
  case (Cons t turns)
  obtain ev st where t: "t = (ev, st)" by (cases t)
  have "\<forall>u r. get_user_profile (snd (workflow_invoke ev db st)) u = Some r \<longrightarrow>
          missing_fields r = []"
    using Cons.prems(1) workflow_writes_complete_rows [of db ev st] by blast
  moreover have "get_user_profile (run_turns turns (snd (workflow_invoke ev db st))) u' = Some r'"
    using Cons.prems(2) t by simp
  ultimately show ?case by (rule Cons.IH)
qed

theorem turns_keep_rows_complete_witness:
  "\<exists>r. get_user_profile
          (run_turns
             [(sample_env, onboarding_state ''u1'' sample_profile [HumanMessage ''thanks''])]
             Map.empty) ''u1'' = Some r
       \<and> missing_fields r = []"
proof -
  let ?st = "onboarding_state ''u1'' sample_profile [HumanMessage ''thanks'']"
  let ?db = "run_turns [(sample_env, ?st)] Map.empty"
  have e: "\<forall>u r. get_user_profile Map.empty u = Some r \<longrightarrow> missing_fields r = []"
    by (simp add: get_user_profile_def)
  have onb: "is_onboarding (after_check sample_env Map.empty ?st) = Some True"
    by (simp add: is_onboarding_after_check get_user_profile_def)
  have "snd (workflow_invoke sample_env Map.empty ?st) ''u1'' \<noteq> None"
  proof -
    have p: "profile_after_extraction sample_env (after_check sample_env Map.empty ?st)
               = sample_profile"
      unfolding profile_after_extraction_after_check [OF onb]
      by (simp add: profile_after_extraction_def last_human_message_def)
    have m: "missing_fields sample_profile = []"
      by (simp add: missing_fields_def required_fields_def field_missing_def dict_contains_def
          dict_get_def truthy_def sample_profile_def)
    have "snd (onboarding_step_node sample_env Map.empty (after_check sample_env Map.empty ?st))
            ''u1'' \<noteq> None"
      using onboarding_step_complete [OF onb, of sample_env Map.empty]
      by (simp add: p m complete_onboarding_def Let_def stored_backstory_row
          save_user_profile_row dict_get_def truthy_def profile_columns_def
          save_backstory_def sql_update_def)
    then show ?thesis by (simp add: workflow_invoke_onboarding [OF onb])
  qed
  then obtain r where r: "get_user_profile ?db ''u1'' = Some r"
    by (auto simp: get_user_profile_def)
  from turns_keep_rows_complete [OF e r] r show ?thesis by blast
qed

text \<open>
  The scope of the numeric fallback when no required key of the profile holds an empty
  value: if the extractor call raises, or its reply holds no braces, or the text between
  them is not JSON, then the profile changes only when the first missing field is
  \<^verbatim>\<open>years_experience\<close> and the utterance holds a digit, and then only in that field,
  set to the first run of digits; otherwise the profile is unchanged.
\<close>

theorem numeric_fallback_scope:
  assumes "user_message \<noteq> []"
    and "case extraction_reply ev of
           Inl e \<Rightarrow> True
         | Inr response_str \<Rightarrow>
             (case json_match response_str of None \<Rightarrow> True | Some js \<Rightarrow> json_loads ev js = None)"
    and "list_all (\<lambda>f. dict_contains p f = truthy (dict_get p f)) required_fields"
  shows "extract_profile ev p user_message =
           (if (\<exists>rest. missing_fields p = ''years_experience'' # rest)
               \<and> findall_digits user_message \<noteq> []
            then dict_set p ''years_experience'' (Some (hd (findall_digits user_message)))
            else p)"
  using extraction_without_json [OF assms(1,2)] no_empty_values_same_missing [OF assms(3)]
  by (simp add: years_fallback_scope)

theorem numeric_fallback_scope_witness:
  "extract_profile (sample_env\<lparr>extraction_reply := Inr ''I do not know''\<rparr>)
     [(''name'', Some ''Asha'')] ''Plot 12, Jaipur'' = [(''name'', Some ''Asha'')]
   \<and> extract_profile (sample_env\<lparr>extraction_reply := Inl ''503 unavailable''\<rparr>)
       [(''name'', Some ''Asha''), (''state'', Some ''Rajasthan''),
        (''craft_type'', Some ''pottery''), (''materials'', Some ''clay'')]
       ''about 12 years, since 2013''
     = [(''name'', Some ''Asha''), (''state'', Some ''Rajasthan''),
        (''craft_type'', Some ''pottery''), (''materials'', Some ''clay''),
        (''years_experience'', Some ''12'')]"
proof -
  let ?p1 = "[(''name'', Some ''Asha'')]"
  let ?p2 = "[(''name'', Some ''Asha''), (''state'', Some ''Rajasthan''),
        (''craft_type'', Some ''pottery''), (''materials'', Some ''clay'')]"
  have a1: "case extraction_reply (sample_env\<lparr>extraction_reply := Inr ''I do not know''\<rparr>) of
           Inl e \<Rightarrow> True
         | Inr response_str \<Rightarrow>
             (case json_match response_str of None \<Rightarrow> True
              | Some js \<Rightarrow>
                  json_loads (sample_env\<lparr>extraction_reply := Inr ''I do not know''\<rparr>) js = None)"
    by (simp add: json_match_def)
  have a2: "case extraction_reply (sample_env\<lparr>extraction_reply := Inl ''503 unavailable''\<rparr>) of
           Inl e \<Rightarrow> True
         | Inr response_str \<Rightarrow>
             (case json_match response_str of None \<Rightarrow> True
              | Some js \<Rightarrow>
                  json_loads (sample_env\<lparr>extraction_reply := Inl ''503 unavailable''\<rparr>) js = None)"
    by simp
  have l1: "list_all (\<lambda>f. dict_contains ?p1 f = truthy (dict_get ?p1 f)) required_fields"
    by (simp add: required_fields_def dict_contains_def dict_get_def truthy_def)
  have l2: "list_all (\<lambda>f. dict_contains ?p2 f = truthy (dict_get ?p2 f)) required_fields"
    by (simp add: required_fields_def dict_contains_def dict_get_def truthy_def)
  have m1: "missing_fields ?p1 = ''state'' # [''craft_type'', ''materials'', ''years_experience'',
      ''sales_channels'', ''price_range'', ''languages'', ''brand_style'']"
    by (simp add: missing_fields_def required_fields_def field_missing_def dict_contains_def
        dict_get_def truthy_def)
  have m2: "missing_fields ?p2 = ''years_experience'' # [''sales_channels'', ''price_range'',
       ''languages'', ''brand_style'']"
    by (simp add: missing_fields_def required_fields_def field_missing_def dict_contains_def
        dict_get_def truthy_def)
  have d: "findall_digits ''about 12 years, since 2013'' = [''12'', ''2013'']"
    by (simp add: is_digit_def)
  have n1: "''Plot 12, Jaipur'' \<noteq> []" and n2: "''about 12 years, since 2013'' \<noteq> []"
    by simp_all
  from numeric_fallback_scope [OF n1 a1 l1] numeric_fallback_scope [OF n2 a2 l2]
  show ?thesis by (simp add: m1 m2 d dict_set_def is_digit_def)
qed

text \<open>
  The extraction never removes a key of the profile, and it changes the value of a key
  only when the object it parsed holds that key or, through the numeric fallback, for
  \<^verbatim>\<open>years_experience\<close>.
\<close>

lemma map_of_dict_update:
  "map_of (dict_update p e) k = (case map_of (rev e) k of Some v \<Rightarrow> Some v | None \<Rightarrow> map_of p k)"
  by (simp add: dict_update_def map_of_fold_update)

lemma map_of_years_fallback:
  "k \<noteq> ''years_experience'' \<Longrightarrow> map_of (years_fallback p m) k = map_of p k"
  by (simp add: years_fallback_def dict_set_def update_conv' split: list.splits)

lemma dict_contains_years_fallback:
  "dict_contains p k \<Longrightarrow> dict_contains (years_fallback p m) k"
  by (auto simp: years_fallback_def dict_set_def dict_contains_def update_conv' split: list.splits)

theorem extraction_keeps_fields:
  assumes "dict_contains p k"
  shows "dict_contains (extract_profile ev p m) k
       \<and> (map_of (extract_profile ev p m) k = map_of p k
          \<or> k = ''years_experience''
          \<or> (\<exists>response_str js e.
               extraction_reply ev = Inr response_str \<and> json_match response_str = Some js
               \<and> json_loads ev js = Some e \<and> dict_contains e k))"
proof -
  have c: "dict_contains (extract_profile ev p m) k"
    using assms dict_contains_years_fallback [OF assms]
    by (auto simp: extract_profile_def dict_contains_def map_of_dict_update
        split: sum.splits option.splits)
  have "map_of (extract_profile ev p m) k = map_of p k"
    if "k \<noteq> ''years_experience''"
      and "\<not> (\<exists>response_str js e.
               extraction_reply ev = Inr response_str \<and> json_match response_str = Some js
               \<and> json_loads ev js = Some e \<and> dict_contains e k)"
  proof -
    have "map_of (dict_update p e) k = map_of p k"
      if "extraction_reply ev = Inr response_str" "json_match response_str = Some js"
        "json_loads ev js = Some e" for response_str js e
    proof -
      have "\<not> dict_contains e k" using that \<open>\<not> (\<exists>response_str js e. _)\<close> by blast
      then have "map_of e k = None" by (simp add: dict_contains_def)
      then have "map_of (rev e) k = None"
        by (simp add: map_of_eq_None_iff)
      then show ?thesis by (simp add: map_of_dict_update)
    qed
    then show ?thesis
      using map_of_years_fallback [OF that(1)]
      by (simp add: extract_profile_def split: sum.splits option.splits)
  qed
  with c show ?thesis by blast
qed

theorem extraction_keeps_fields_witness:
  "dict_contains
     (extract_profile
        (sample_env\<lparr>extraction_reply := Inr ''{x}'',
                    json_loads := (\<lambda>s. Some [(''state'', Some ''Rajasthan'')])\<rparr>)
        [(''name'', Some ''Asha'')] ''I am from Jaipur'') ''name''
   \<and> map_of
       (extract_profile
          (sample_env\<lparr>extraction_reply := Inr ''{x}'',
                      json_loads := (\<lambda>s. Some [(''state'', Some ''Rajasthan'')])\<rparr>)
          [(''name'', Some ''Asha'')] ''I am from Jaipur'') ''name''
     = Some (Some ''Asha'')"
proof -
  let ?ev = "sample_env\<lparr>extraction_reply := Inr ''{x}'',
                    json_loads := (\<lambda>s. Some [(''state'', Some ''Rajasthan'')])\<rparr>"
  have h: "dict_contains [(''name'', Some ''Asha'')] ''name''" by (simp add: dict_contains_def)
  have n: "\<not> (\<exists>response_str js e.
               extraction_reply ?ev = Inr response_str \<and> json_match response_str = Some js
               \<and> json_loads ?ev js = Some e \<and> dict_contains e ''name'')"
    by (auto simp: dict_contains_def)
  from extraction_keeps_fields [OF h, of ?ev "''I am from Jaipur''"] n
  show ?thesis by auto
qed

text \<open>
  \<^verbatim>\<open>welfare_search_node\<close> turns a failure of the search tool or of the summary call into
  the text of its answer: with a message in the state it never raises.
\<close>

theorem welfare_search_never_raises:
  assumes "messages st \<noteq> []"
  shows "\<exists>t. welfare_search_node ev st = Inr (no_update\<lparr>upd_tool_output := Some t\<rparr>)
       \<and> (t = (case search_reply ev of
                 Inl e \<Rightarrow> ''Unable to search welfare schemes: '' @ e
               | Inr results \<Rightarrow>
                   (case summary_reply ev of
                      Inl e \<Rightarrow> ''Unable to search welfare schemes: '' @ e
                    | Inr s \<Rightarrow> s)))"
proof -
  from assms obtain q qs where "rev (messages st) = q # qs"
    by (cases "rev (messages st)") auto
  then show ?thesis
    by (simp add: welfare_search_node_def split: sum.splits)
qed

theorem welfare_search_never_raises_witness:
  "welfare_search_node sample_env (new_conversation ''what is PM Kisan scheme'' ''u1'') =
     Inr (no_update
            \<lparr>upd_tool_output := Some ''Unable to search welfare schemes: search unavailable''\<rparr>)"
proof -
  have "messages (new_conversation ''what is PM Kisan scheme'' ''u1'') \<noteq> []" by simp
  from welfare_search_never_raises [OF this, of sample_env] show ?thesis
    by (simp add: sample_env_def)
qed

end
